theory Spec2Isabelle
  imports Main "HOL-Library.Word"
begin

section \<open>Data of the block-difficulty monitor\<close>

text \<open>
  The repository holds three variants of one program, each a single \<^verbatim>\<open>main\<close>:
  \<^item> \<^verbatim>\<open>main.go\<close>: poll the tip, walk the gap of heights, insert each header's
    difficulty into the database, set a gauge and push it;
  \<^item> \<^verbatim>\<open>unnamed/part_001\<close>: the same without the gauge and the push;
  \<^item> \<^verbatim>\<open>unnamed/part_000\<close>: no database and no gap; on each tick the header of the
    current tip only, with a nil check on the difficulty and a signal handler.

  The RPC client, the database and the push gateway are outside the program. They are
  an environment: every call takes the state of the outside world and returns its
  answer with the next state of the world, so an answer may depend on everything that
  happened before. The program records each call it makes, and each log line, in a
  trace. An insert is recorded with its block number and difficulty (its timestamp is
  left out), a gauge update with the \<^verbatim>\<open>float64\<close> value it sets, a push with its address;
  the push gateway receives the value the gauge holds.
\<close>

type_synonym uint64 = "64 word"  \<comment> \<open>read with \<open>uint\<close>\<close>
type_synonym int64 = "64 word"   \<comment> \<open>read with \<open>sint\<close>\<close>
type_synonym big_Int = int       \<comment> \<open>the value of a non-nil \<^verbatim>\<open>*big.Int\<close>\<close>
type_synonym float64 = int       \<comment> \<open>the value of a \<^verbatim>\<open>float64\<close> that holds a whole number\<close>
type_synonym error = string

text \<open>
  A fetched header, as far as the program reads it: the two \<^verbatim>\<open>*big.Int\<close> fields
  behind \<^verbatim>\<open>Difficulty()\<close> and \<^verbatim>\<open>Number()\<close>. A pointer may be nil (\<open>None\<close>):
  \<^verbatim>\<open>part_000\<close> tests the difficulty for it.
\<close>

record header =
  difficulty :: "big_Int option"
  number :: "big_Int option"

datatype log_line =
    FailedBlockNumber
  | FailedHeader big_Int
  | FailedInsert uint64
  | Inserted uint64 uint64
  | FailedPush
  | Pushed uint64
  | FailedHeaderOfTip uint64
  | NilDifficulty uint64
  | PushedTip uint64 uint64
  | ShutdownSignal
  | FatalLine string

datatype event =
    BlockNumber_call
  | HeaderByNumber_call big_Int
  | Exec_call uint64 uint64
  | Gauge_Set float64
  | Push_call string
  | Log log_line

record 'w io =
  world :: 'w
  trace :: "event list"

record 'w env =
  rpc_BlockNumber :: "'w \<Rightarrow> (error + uint64) \<times> 'w"
  rpc_HeaderByNumber :: "big_Int \<Rightarrow> 'w \<Rightarrow> (error + header) \<times> 'w"
  db_Exec :: "uint64 \<Rightarrow> uint64 \<Rightarrow> 'w \<Rightarrow> error option \<times> 'w"
  push_Push :: "string \<Rightarrow> float64 \<Rightarrow> 'w \<Rightarrow> error option \<times> 'w"

text \<open>
  A step of the program either completes or panics (a nil pointer dereference ends the
  Go process); both carry the state reached.
\<close>

datatype 'a outcome = Completed 'a | Panicked 'a

fun state_of :: "'a outcome \<Rightarrow> 'a" where
  "state_of (Completed s) = s"
| "state_of (Panicked s) = s"

datatype status = Running | Crashed | Exited nat

definition emit :: "event \<Rightarrow> 'w io \<Rightarrow> 'w io" where
  "emit e io = io\<lparr>trace := trace io @ [e]\<rparr>"

text \<open>The projections of a trace the claims speak about.\<close>

fun fetches :: "event list \<Rightarrow> big_Int list" where
  "fetches [] = []"
| "fetches (HeaderByNumber_call h # es) = h # fetches es"
| "fetches (_ # es) = fetches es"

fun is_metric :: "event \<Rightarrow> bool" where
  "is_metric (Gauge_Set _) = True"
| "is_metric (Push_call _) = True"
| "is_metric _ = False"

fun inserted :: "event list \<Rightarrow> uint64 list" where
  "inserted [] = []"
| "inserted (Log (Inserted n d) # es) = d # inserted es"
| "inserted (_ # es) = inserted es"

section \<open>Conversions\<close>

text \<open>
  \<^verbatim>\<open>int64(x)\<close> on a \<^verbatim>\<open>uint64\<close> keeps the 64 bits; \<^verbatim>\<open>big.NewInt\<close> takes the signed
  value of an \<^verbatim>\<open>int64\<close>; \<^verbatim>\<open>SetUint64\<close> takes the unsigned value. \<^verbatim>\<open>Uint64()\<close> reads
  the magnitude's low 64 bits through the pointer, and panics on nil.
\<close>

definition int64_of :: "uint64 \<Rightarrow> int64" where
  "int64_of x = x"

definition big_NewInt :: "int64 \<Rightarrow> big_Int" where
  "big_NewInt x = sint x"

definition SetUint64 :: "uint64 \<Rightarrow> big_Int" where
  "SetUint64 x = uint x"

fun Uint64 :: "big_Int option \<Rightarrow> uint64 option" where
  "Uint64 None = None"
| "Uint64 (Some x) = Some (word_of_int \<bar>x\<bar>)"

text \<open>
  \<^verbatim>\<open>float64(x)\<close> on a \<^verbatim>\<open>uint64\<close> rounds to the nearest value with a 53-bit
  significand, ties to even: exact below \<open>2^53\<close>, lossy above. With \<open>k\<close> the number of
  bits beyond 53, the low \<open>k\<close> bits are rounded away. The result is a whole number.
\<close>

function excess_bits :: "int \<Rightarrow> nat" where
  "excess_bits n = (if n < 2 ^ 53 then 0 else Suc (excess_bits (n div 2)))"
  by pat_completeness auto
termination
  by (relation "measure nat") auto

declare excess_bits.simps [simp del]

definition float64_of :: "uint64 \<Rightarrow> float64" where
  "float64_of x =
    (let n = uint x; k = excess_bits n; q = n div 2 ^ k; r = n mod 2 ^ k in
     if 2 ^ k < 2 * r \<or> (2 * r = 2 ^ k \<and> odd q) then (q + 1) * 2 ^ k else q * 2 ^ k)"

section \<open>main.go and part\_001: the synchronizer\<close>

text \<open>
  The body of the inner loop of \<^verbatim>\<open>main.go\<close> (lines 83 to 113) at one height. A
  \<^verbatim>\<open>continue\<close> completes the iteration. Lines 101 to 113, the gauge and the push, are
  \<open>export_metric\<close>: no test of the address guards them.
\<close>

definition export_metric :: "'w env \<Rightarrow> string \<Rightarrow> uint64 \<Rightarrow> 'w io \<Rightarrow> 'w io" where
  "export_metric env pushGateway d io3 =
    (let io4 = emit (Gauge_Set (float64_of d)) io3 in
     case push_Push env pushGateway (float64_of d) (world io4) of (pe, w5) \<Rightarrow>
       let io5 = emit (Push_call pushGateway) (io4\<lparr>world := w5\<rparr>) in
       (case pe of
         Some err \<Rightarrow> emit (Log FailedPush) io5
       | None \<Rightarrow> emit (Log (Pushed d)) io5))"

definition process_height :: "'w env \<Rightarrow> string \<Rightarrow> big_Int \<Rightarrow> 'w io \<Rightarrow> 'w io outcome" where
  "process_height env pushGateway height io0 =
    (case rpc_HeaderByNumber env height (world io0) of (r, w1) \<Rightarrow>
      let io1 = emit (HeaderByNumber_call height) (io0\<lparr>world := w1\<rparr>) in
      (case r of
        Inl err \<Rightarrow> Completed (emit (Log (FailedHeader height)) io1)
      | Inr hdr \<Rightarrow>
          (case Uint64 (difficulty hdr) of
            None \<Rightarrow> Panicked io1
          | Some d \<Rightarrow>
              (case Uint64 (number hdr) of
                None \<Rightarrow> Panicked io1
              | Some blockNumber \<Rightarrow>
                  (case db_Exec env blockNumber d (world io1) of (e, w2) \<Rightarrow>
                    let io2 = emit (Exec_call blockNumber d) (io1\<lparr>world := w2\<rparr>) in
                    (case e of
                      Some err \<Rightarrow> Completed (emit (Log (FailedInsert blockNumber)) io2)
                    | None \<Rightarrow>
                        Completed (export_metric env pushGateway d
                          (emit (Log (Inserted blockNumber d)) io2))))))))"

text \<open>The body of the inner loop of \<^verbatim>\<open>part_001\<close> (lines 73 to 89): no metrics.\<close>

definition process_height_001 :: "'w env \<Rightarrow> big_Int \<Rightarrow> 'w io \<Rightarrow> 'w io outcome" where
  "process_height_001 env height io0 =
    (case rpc_HeaderByNumber env height (world io0) of (r, w1) \<Rightarrow>
      let io1 = emit (HeaderByNumber_call height) (io0\<lparr>world := w1\<rparr>) in
      (case r of
        Inl err \<Rightarrow> Completed (emit (Log (FailedHeader height)) io1)
      | Inr hdr \<Rightarrow>
          (case Uint64 (difficulty hdr) of
            None \<Rightarrow> Panicked io1
          | Some d \<Rightarrow>
              (case Uint64 (number hdr) of
                None \<Rightarrow> Panicked io1
              | Some blockNumber \<Rightarrow>
                  (case db_Exec env blockNumber d (world io1) of (e, w2) \<Rightarrow>
                    let io2 = emit (Exec_call blockNumber d) (io1\<lparr>world := w2\<rparr>) in
                    (case e of
                      Some err \<Rightarrow> Completed (emit (Log (FailedInsert blockNumber)) io2)
                    | None \<Rightarrow> Completed (emit (Log (Inserted blockNumber d)) io2)))))))"

text \<open>
  The inner loop, the same text in both files:
  \<^verbatim>\<open>for height := lastHeight + 1; height <= currentHeight; height++\<close>.
  A panic in the body leaves the loop.
\<close>

function heights_loop ::
  "(big_Int \<Rightarrow> 'w io \<Rightarrow> 'w io outcome) \<Rightarrow> big_Int \<Rightarrow> big_Int \<Rightarrow> 'w io \<Rightarrow> 'w io outcome" where
  "heights_loop body height currentHeight io =
    (if height \<le> currentHeight then
       (case body height io of
         Panicked io' \<Rightarrow> Panicked io'
       | Completed io' \<Rightarrow> heights_loop body (height + 1) currentHeight io')
     else Completed io)"
  by pat_completeness auto
termination
  by (relation "measure (\<lambda>(body, height, currentHeight, io). nat (currentHeight + 1 - height))") auto

declare heights_loop.simps [simp del]

text \<open>
  One iteration of the polling loop (\<^verbatim>\<open>main.go\<close> lines 72 to 119, \<^verbatim>\<open>part_001\<close> lines
  62 to 92), on the watermark \<^verbatim>\<open>lastHeight\<close>.
\<close>

definition currentHeight_of :: "uint64 \<Rightarrow> big_Int" where
  "currentHeight_of currentBlockNumber = big_NewInt (int64_of currentBlockNumber)"

definition tick ::
  "'w env \<Rightarrow> (big_Int \<Rightarrow> 'w io \<Rightarrow> 'w io outcome) \<Rightarrow> big_Int \<Rightarrow> 'w io \<Rightarrow> (big_Int \<times> 'w io) outcome" where
  "tick env body lastHeight io0 =
    (case rpc_BlockNumber env (world io0) of (r, w1) \<Rightarrow>
      let io1 = emit BlockNumber_call (io0\<lparr>world := w1\<rparr>) in
      (case r of
        Inl err \<Rightarrow> Completed (lastHeight, emit (Log FailedBlockNumber) io1)
      | Inr currentBlockNumber \<Rightarrow>
          let currentHeight = currentHeight_of currentBlockNumber in
          if currentHeight > lastHeight then
            (case heights_loop body (lastHeight + 1) currentHeight io1 of
              Panicked io' \<Rightarrow> Panicked (lastHeight, io')
            | Completed io' \<Rightarrow> Completed (currentHeight, io'))
          else Completed (lastHeight, io1)))"

text \<open>Which of the two files runs: \<^verbatim>\<open>main.go\<close> with its push gateway address, or \<^verbatim>\<open>part_001\<close>.\<close>

datatype variant = Main_go string | Part_001

fun loop_body :: "'w env \<Rightarrow> variant \<Rightarrow> big_Int \<Rightarrow> 'w io \<Rightarrow> 'w io outcome" where
  "loop_body env (Main_go pushGateway) = process_height env pushGateway"
| "loop_body env Part_001 = process_height_001 env"

definition cycle :: "'w env \<Rightarrow> variant \<Rightarrow> big_Int \<Rightarrow> 'w io \<Rightarrow> (big_Int \<times> 'w io) outcome" where
  "cycle env v = tick env (loop_body env v)"

text \<open>
  The polling loop \<^verbatim>\<open>for range ticker.C\<close> after \<open>n\<close> ticks. The loop has no
  \<^verbatim>\<open>break\<close> and no \<^verbatim>\<open>return\<close>: it is still running unless it panicked.
\<close>

fun poll_loop ::
  "'w env \<Rightarrow> (big_Int \<Rightarrow> 'w io \<Rightarrow> 'w io outcome) \<Rightarrow> nat \<Rightarrow> big_Int \<Rightarrow> 'w io \<Rightarrow> status \<times> big_Int \<times> 'w io" where
  "poll_loop env body 0 lastHeight io = (Running, lastHeight, io)"
| "poll_loop env body (Suc n) lastHeight io =
    (case tick env body lastHeight io of
      Panicked (l, io') \<Rightarrow> (Crashed, l, io')
    | Completed (l, io') \<Rightarrow> poll_loop env body n l io')"

text \<open>
  The starting height (\<^verbatim>\<open>main.go\<close> lines 48 to 57, \<^verbatim>\<open>part_001\<close> lines 44 to 53).
  \<^verbatim>\<open>log.Fatalf\<close> ends the process with status 1.
\<close>

definition starting_height :: "'w env \<Rightarrow> int64 \<Rightarrow> 'w io \<Rightarrow> (status + big_Int) \<times> 'w io" where
  "starting_height env startHeight io0 =
    (if 0 \<le> sint startHeight then (Inr (big_NewInt startHeight), io0)
     else
       (case rpc_BlockNumber env (world io0) of (r, w1) \<Rightarrow>
         let io1 = emit BlockNumber_call (io0\<lparr>world := w1\<rparr>) in
         (case r of
           Inl err \<Rightarrow> (Inl (Exited 1), emit (Log (FatalLine ''failed to get block number'')) io1)
         | Inr blockNumber \<Rightarrow> (Inr (big_NewInt (int64_of blockNumber)), io1))))"

text \<open>The default of the \<^verbatim>\<open>start\<close> flag (\<^verbatim>\<open>flag.Int64("start", -1, ...)\<close>).\<close>

definition start_default :: int64 where
  "start_default = - 1"

section \<open>part\_000: the monitor of the current tip\<close>

text \<open>The required options (lines 43 to 45).\<close>

definition required_options_000 :: "string \<Rightarrow> string \<Rightarrow> status + unit" where
  "required_options_000 rpc pushGateway =
    (if rpc = [] \<or> pushGateway = [] then Inl (Exited 1) else Inr ())"

text \<open>The required options of \<^verbatim>\<open>main.go\<close> (lines 27 to 29) and \<^verbatim>\<open>part_001\<close> (23 to 25).\<close>

definition required_options :: "string \<Rightarrow> string \<Rightarrow> status + unit" where
  "required_options rpc dsn =
    (if rpc = [] \<or> dsn = [] then Inl (Exited 1) else Inr ())"

text \<open>The \<^verbatim>\<open>ticker.C\<close> case of the \<^verbatim>\<open>select\<close> (lines 73 to 120).\<close>

definition monitor_tick :: "'w env \<Rightarrow> string \<Rightarrow> 'w io \<Rightarrow> 'w io" where
  "monitor_tick env pushGateway io0 =
    (case rpc_BlockNumber env (world io0) of (r, w1) \<Rightarrow>
      let io1 = emit BlockNumber_call (io0\<lparr>world := w1\<rparr>) in
      (case r of
        Inl err \<Rightarrow> emit (Log FailedBlockNumber) io1
      | Inr currentBlockNumber \<Rightarrow>
          let blockNumberBig = SetUint64 currentBlockNumber in
          (case rpc_HeaderByNumber env blockNumberBig (world io1) of (hr, w2) \<Rightarrow>
            let io2 = emit (HeaderByNumber_call blockNumberBig) (io1\<lparr>world := w2\<rparr>) in
            (case hr of
              Inl err \<Rightarrow> emit (Log (FailedHeaderOfTip currentBlockNumber)) io2
            | Inr hdr \<Rightarrow>
                (case difficulty hdr of
                  None \<Rightarrow> emit (Log (NilDifficulty currentBlockNumber)) io2
                | Some difficultyBig \<Rightarrow>
                    let d = word_of_int \<bar>difficultyBig\<bar>;
                        io3 = emit (Gauge_Set (float64_of d)) io2
                    in (case push_Push env pushGateway (float64_of d) (world io3) of (pe, w4) \<Rightarrow>
                         let io4 = emit (Push_call pushGateway) (io3\<lparr>world := w4\<rparr>) in
                         (case pe of
                           Some err \<Rightarrow> emit (Log FailedPush) io4
                         | None \<Rightarrow> emit (Log (PushedTip currentBlockNumber d)) io4)))))))"

text \<open>
  The main loop of \<^verbatim>\<open>part_000\<close> (lines 71 to 126), on the cases its \<^verbatim>\<open>select\<close>
  takes, in order. The \<^verbatim>\<open>quit\<close> case returns from \<^verbatim>\<open>main\<close>: exit status 0.
\<close>

datatype select_case = Case_ticker | Case_quit

fun select_loop :: "'w env \<Rightarrow> string \<Rightarrow> select_case list \<Rightarrow> 'w io \<Rightarrow> status \<times> 'w io" where
  "select_loop env pushGateway [] io = (Running, io)"
| "select_loop env pushGateway (Case_quit # cs) io = (Exited 0, emit (Log ShutdownSignal) io)"
| "select_loop env pushGateway (Case_ticker # cs) io =
    select_loop env pushGateway cs (monitor_tick env pushGateway io)"

section \<open>Conditions on the environment\<close>

text \<open>
  What the claims assume of the outside world: that no header comes with a nil field,
  that the fetch of a height fails in a given state, that its insert fails there.
\<close>

definition nil_free :: "'w env \<Rightarrow> bool" where
  "nil_free env = (\<forall>h w. case fst (rpc_HeaderByNumber env h w) of
      Inl err \<Rightarrow> True
    | Inr hdr \<Rightarrow> difficulty hdr \<noteq> None \<and> number hdr \<noteq> None)"

definition fetch_fails :: "'w env \<Rightarrow> big_Int \<Rightarrow> 'w io \<Rightarrow> bool" where
  "fetch_fails env h io = isl (fst (rpc_HeaderByNumber env h (world io)))"

definition insert_fails :: "'w env \<Rightarrow> big_Int \<Rightarrow> 'w io \<Rightarrow> bool" where
  "insert_fails env h io =
    (case rpc_HeaderByNumber env h (world io) of (r, w1) \<Rightarrow>
      (case r of
        Inl err \<Rightarrow> False
      | Inr hdr \<Rightarrow>
          (case Uint64 (difficulty hdr) of
            None \<Rightarrow> False
          | Some d \<Rightarrow>
              (case Uint64 (number hdr) of
                None \<Rightarrow> False
              | Some blockNumber \<Rightarrow> fst (db_Exec env blockNumber d w1) \<noteq> None))))"

section \<open>Environments of the scenarios\<close>

text \<open>Tip 103; the headers of 101, 102, 103 carry the difficulties 5, 6, 7; nothing fails.\<close>

definition scenario_env :: "unit env" where
  "scenario_env =
    \<lparr>rpc_BlockNumber = (\<lambda>w. (Inr 103, w)),
     rpc_HeaderByNumber = (\<lambda>h w. (Inr \<lparr>difficulty = Some (h - 96), number = Some h\<rparr>, w)),
     db_Exec = (\<lambda>n d w. (None, w)),
     push_Push = (\<lambda>a d w. (None, w))\<rparr>"

text \<open>Tip 102; the fetch of 101 fails, the header of 102 carries the difficulty 9.\<close>

definition fetch_fail_env :: "unit env" where
  "fetch_fail_env =
    \<lparr>rpc_BlockNumber = (\<lambda>w. (Inr 102, w)),
     rpc_HeaderByNumber = (\<lambda>h w.
       (if h = 101 then Inl ''not found'' else Inr \<lparr>difficulty = Some 9, number = Some h\<rparr>, w)),
     db_Exec = (\<lambda>n d w. (None, w)),
     push_Push = (\<lambda>a d w. (None, w))\<rparr>"

text \<open>Tip 102; every fetch fails, and every insert and push would.\<close>

definition all_fail_env :: "unit env" where
  "all_fail_env =
    \<lparr>rpc_BlockNumber = (\<lambda>w. (Inr 102, w)),
     rpc_HeaderByNumber = (\<lambda>h w. (Inl ''timeout'', w)),
     db_Exec = (\<lambda>n d w. (Some ''gone away'', w)),
     push_Push = (\<lambda>a d w. (Some ''refused'', w))\<rparr>"

text \<open>Tip 102; the header of 101 comes without a difficulty.\<close>

definition nil_difficulty_env :: "unit env" where
  "nil_difficulty_env =
    \<lparr>rpc_BlockNumber = (\<lambda>w. (Inr 102, w)),
     rpc_HeaderByNumber = (\<lambda>h w.
       (Inr \<lparr>difficulty = (if h = 101 then None else Some 9), number = Some h\<rparr>, w)),
     db_Exec = (\<lambda>n d w. (None, w)),
     push_Push = (\<lambda>a d w. (None, w))\<rparr>"

text \<open>The same with the tip 101, whose header comes without a difficulty.\<close>

definition nil_tip_env :: "unit env" where
  "nil_tip_env = nil_difficulty_env\<lparr>rpc_BlockNumber := (\<lambda>w. (Inr 101, w))\<rparr>"

text \<open>The first scenario with a push gateway that refuses every push.\<close>

definition push_fail_env :: "unit env" where
  "push_fail_env = scenario_env\<lparr>push_Push := (\<lambda>a d w. (Some ''refused'', w))\<rparr>"

text \<open>The node reports the tip \<open>2^63\<close>; every header carries the difficulty 7.\<close>

definition big_tip_env :: "unit env" where
  "big_tip_env =
    \<lparr>rpc_BlockNumber = (\<lambda>w. (Inr (2 ^ 63), w)),
     rpc_HeaderByNumber = (\<lambda>h w. (Inr \<lparr>difficulty = Some 7, number = Some h\<rparr>, w)),
     db_Exec = (\<lambda>n d w. (None, w)),
     push_Push = (\<lambda>a d w. (None, w))\<rparr>"

text \<open>
  The world counts the tip queries: the first one returns \<open>2^64 - 1\<close>, the later ones 2.
\<close>

definition wrapped_start_env :: "nat env" where
  "wrapped_start_env =
    \<lparr>rpc_BlockNumber = (\<lambda>w. (Inr (if w = 0 then 2 ^ 64 - 1 else 2), Suc w)),
     rpc_HeaderByNumber = (\<lambda>h w. (Inr \<lparr>difficulty = Some 7, number = Some h\<rparr>, w)),
     db_Exec = (\<lambda>n d w. (None, w)),
     push_Push = (\<lambda>a d w. (None, w))\<rparr>"

text \<open>
  The world counts the tip queries: the first one fails, the later ones return 103.
\<close>

definition flaky_tip_env :: "nat env" where
  "flaky_tip_env =
    \<lparr>rpc_BlockNumber = (\<lambda>w. (if w = 0 then Inl ''timeout'' else Inr 103, Suc w)),
     rpc_HeaderByNumber = (\<lambda>h w. (Inr \<lparr>difficulty = Some (h - 96), number = Some h\<rparr>, w)),
     db_Exec = (\<lambda>n d w. (None, w)),
     push_Push = (\<lambda>a d w. (None, w))\<rparr>"

definition io_init :: "unit io" where
  "io_init = \<lparr>world = (), trace = []\<rparr>"

definition io_count :: "nat io" where
  "io_count = \<lparr>world = 0, trace = []\<rparr>"

section \<open>Traces\<close>

lemma fetches_append: "fetches (xs @ ys) = fetches xs @ fetches ys"
  by (induction xs rule: fetches.induct) auto

lemma inserted_append: "inserted (xs @ ys) = inserted xs @ inserted ys"
  by (induction xs rule: inserted.induct) auto

lemma trace_emit: "trace (emit e io) = trace io @ [e]"
  by (simp add: emit_def)

lemma world_emit: "world (emit e io) = world io"
  by (simp add: emit_def)

lemma float64_of_small: "uint x < 2 ^ 53 \<Longrightarrow> float64_of x = uint x"
proof -
  assume "uint x < 2 ^ 53"
  then have "excess_bits (uint x) = 0"
    by (subst excess_bits.simps) simp
  then show ?thesis by (simp add: float64_of_def)
qed

section \<open>One height\<close>

lemma loop_body_events:
  "\<exists>evs. trace (state_of (loop_body env v h io)) = trace io @ evs \<and> fetches evs = [h]"
proof (cases v)
  case (Main_go pg)
  then show ?thesis
    by (auto simp: process_height_def export_metric_def trace_emit world_emit Let_def
        split: prod.splits sum.splits option.splits)
next
  case Part_001
  then show ?thesis
    by (auto simp: process_height_001_def trace_emit world_emit Let_def
        split: prod.splits sum.splits option.splits)
qed

lemma loop_body_completes:
  assumes "nil_free env"
  shows "\<exists>io'. loop_body env v h io = Completed io'"
proof -
  obtain r w1 where r: "rpc_HeaderByNumber env h (world io) = (r, w1)"
    by (cases "rpc_HeaderByNumber env h (world io)")
  have wf: "case r of Inl err \<Rightarrow> True | Inr hdr \<Rightarrow> difficulty hdr \<noteq> None \<and> number hdr \<noteq> None"
    using assms r unfolding nil_free_def
    by (metis fst_conv)
  show ?thesis
  proof (cases v)
    case (Main_go pg)
    then show ?thesis using r wf
      by (auto simp: process_height_def Let_def split: prod.splits sum.splits option.splits)
  next
    case Part_001
    then show ?thesis using r wf
      by (auto simp: process_height_001_def Let_def split: prod.splits sum.splits option.splits)
  qed
qed

section \<open>The gap\<close>

lemma loop_fetches:
  assumes body: "\<And>h io. \<exists>evs. trace (state_of (body h io)) = trace io @ evs \<and> fetches evs = [h]"
  shows "\<exists>evs. trace (state_of (heights_loop body h t io)) = trace io @ evs \<and>
     (case heights_loop body h t io of
        Completed _ \<Rightarrow> fetches evs = [h..t]
      | Panicked _ \<Rightarrow> (\<exists>k. h \<le> k \<and> k \<le> t \<and> fetches evs = [h..k]))"
  using body
proof (induction body h t io rule: heights_loop.induct)
  case (1 body h t io)
  note body = "1.prems"
  show ?case
  proof (cases "h \<le> t")
    case False
    then show ?thesis by (simp add: heights_loop.simps)
  next
    case True
    obtain e1 where e1: "trace (state_of (body h io)) = trace io @ e1" "fetches e1 = [h]"
      using body by blast
    show ?thesis
    proof (cases "body h io")
      case (Panicked io')
      then have "heights_loop body h t io = Panicked io'"
        using True by (simp add: heights_loop.simps)
      moreover have "\<exists>k\<ge>h. k \<le> t \<and> fetches e1 = [h..k]"
        using True e1 by (intro exI [of _ h]) simp
      ultimately show ?thesis using e1 Panicked by auto
    next
      case (Completed io')
      then have eq: "heights_loop body h t io = heights_loop body (h + 1) t io'"
        using True by (simp add: heights_loop.simps)
      from "1.IH" [OF True Completed body] obtain e2 where
        e2: "trace (state_of (heights_loop body (h + 1) t io')) = trace io' @ e2"
        "(case heights_loop body (h + 1) t io' of
            Completed _ \<Rightarrow> fetches e2 = [h + 1..t]
          | Panicked _ \<Rightarrow> (\<exists>k. h + 1 \<le> k \<and> k \<le> t \<and> fetches e2 = [h + 1..k]))"
        by blast
      have tr: "trace (state_of (heights_loop body h t io)) = trace io @ (e1 @ e2)"
        using eq e1 e2 Completed by simp
      have fe: "fetches (e1 @ e2) = h # fetches e2"
        using e1 by (simp add: fetches_append)
      show ?thesis
      proof (cases "heights_loop body (h + 1) t io'")
        case c: (Completed s)
        then have "fetches (e1 @ e2) = [h..t]"
          using e2 fe True by (simp add: upto_rec1)
        then show ?thesis using tr c eq by auto
      next
        case p: (Panicked s)
        then obtain k where k: "h + 1 \<le> k" "k \<le> t" "fetches e2 = [h + 1..k]"
          using e2 by auto
        then have "fetches (e1 @ e2) = [h..k]" using fe by (simp add: upto_rec1)
        moreover have "h \<le> k" using k by simp
        ultimately have "\<exists>k\<ge>h. k \<le> t \<and> fetches (e1 @ e2) = [h..k]"
          using k by blast
        then show ?thesis using tr p eq by auto
      qed
    qed
  qed
qed

lemma loop_completes:
  assumes body: "\<And>h io. \<exists>io'. body h io = Completed io'"
  shows "\<exists>io'. heights_loop body h t io = Completed io'"
  using body
proof (induction body h t io rule: heights_loop.induct)
  case (1 body h t io)
  show ?case
  proof (cases "h \<le> t")
    case False
    then show ?thesis by (simp add: heights_loop.simps)
  next
    case True
    obtain io' where c: "body h io = Completed io'" using "1.prems" by blast
    from "1.IH" [OF True c "1.prems"] show ?thesis
      using True c by (simp add: heights_loop.simps)
  qed
qed

section \<open>One cycle\<close>

lemma tick_tip_failed:
  assumes "rpc_BlockNumber env (world io) = (Inl e, w1)"
  shows "tick env body w io =
    Completed (w, io\<lparr>world := w1, trace := trace io @ [BlockNumber_call, Log FailedBlockNumber]\<rparr>)"
  using assms by (simp add: tick_def emit_def)

lemma tick_stale:
  assumes "rpc_BlockNumber env (world io) = (Inr T, w1)" and "currentHeight_of T \<le> w"
  shows "tick env body w io =
    Completed (w, io\<lparr>world := w1, trace := trace io @ [BlockNumber_call]\<rparr>)"
  using assms by (simp add: tick_def emit_def)

lemma tick_gap:
  assumes "rpc_BlockNumber env (world io) = (Inr T, w1)" and "w < currentHeight_of T"
  shows "tick env body w io =
    (case heights_loop body (w + 1) (currentHeight_of T)
        (io\<lparr>world := w1, trace := trace io @ [BlockNumber_call]\<rparr>) of
      Panicked io' \<Rightarrow> Panicked (w, io')
    | Completed io' \<Rightarrow> Completed (currentHeight_of T, io'))"
  using assms by (simp add: tick_def emit_def Let_def)

lemma cycle_gap_fetches:
  assumes tip: "fst (rpc_BlockNumber env (world io)) = Inr T" and gap: "w < currentHeight_of T"
  shows "\<exists>evs. trace (snd (state_of (cycle env v w io))) = trace io @ BlockNumber_call # evs \<and>
     (case cycle env v w io of
        Completed s \<Rightarrow> fst s = currentHeight_of T \<and> fetches evs = [w + 1..currentHeight_of T]
      | Panicked s \<Rightarrow> fst s = w \<and> (\<exists>k. w < k \<and> k \<le> currentHeight_of T \<and> fetches evs = [w + 1..k]))"
proof -
  obtain w1 where bn: "rpc_BlockNumber env (world io) = (Inr T, w1)"
    using tip by (cases "rpc_BlockNumber env (world io)") simp
  let ?io1 = "io\<lparr>world := w1, trace := trace io @ [BlockNumber_call]\<rparr>"
  let ?L = "heights_loop (loop_body env v) (w + 1) (currentHeight_of T) ?io1"
  have cyc: "cycle env v w io =
      (case ?L of Panicked io' \<Rightarrow> Panicked (w, io') | Completed io' \<Rightarrow> Completed (currentHeight_of T, io'))"
    unfolding cycle_def by (rule tick_gap [OF bn gap])
  obtain evs where evs: "trace (state_of ?L) = trace ?io1 @ evs"
    "(case ?L of
        Completed _ \<Rightarrow> fetches evs = [w + 1..currentHeight_of T]
      | Panicked _ \<Rightarrow> (\<exists>k. w + 1 \<le> k \<and> k \<le> currentHeight_of T \<and> fetches evs = [w + 1..k]))"
    using loop_fetches [of "loop_body env v" "w + 1" "currentHeight_of T" ?io1]
      loop_body_events [of env v] by blast
  show ?thesis
  proof (cases ?L)
    case (Completed io')
    then show ?thesis using cyc evs by (intro exI [of _ evs]) simp
  next
    case (Panicked io')
    then obtain k where "w + 1 \<le> k" "k \<le> currentHeight_of T" "fetches evs = [w + 1..k]"
      using evs by auto
    then have "\<exists>k. w < k \<and> k \<le> currentHeight_of T \<and> fetches evs = [w + 1..k]"
      by (intro exI [of _ k]) simp
    then show ?thesis using cyc evs Panicked by (intro exI [of _ evs]) simp
  qed
qed

lemma cycle_completes:
  assumes "nil_free env"
  shows "\<exists>s. cycle env v w io = Completed s"
proof -
  obtain r w1 where bn: "rpc_BlockNumber env (world io) = (r, w1)"
    by (cases "rpc_BlockNumber env (world io)")
  show ?thesis
  proof (cases r)
    case (Inl e)
    then show ?thesis using bn by (simp add: cycle_def tick_tip_failed)
  next
    case (Inr T)
    show ?thesis
    proof (cases "w < currentHeight_of T")
      case False
      then show ?thesis using bn Inr by (simp add: cycle_def tick_stale)
    next
      case True
      obtain io' where "heights_loop (loop_body env v) (w + 1) (currentHeight_of T)
          (io\<lparr>world := w1, trace := trace io @ [BlockNumber_call]\<rparr>) = Completed io'"
        using loop_completes [of "loop_body env v"] loop_body_completes [OF assms] by blast
      then show ?thesis using bn Inr True by (simp add: cycle_def tick_gap)
    qed
  qed
qed

lemma cycle_starts_with_tip_query:
  "\<exists>evs. trace (snd (state_of (cycle env v w io))) = trace io @ BlockNumber_call # evs"
proof -
  obtain r w1 where bn: "rpc_BlockNumber env (world io) = (r, w1)"
    by (cases "rpc_BlockNumber env (world io)")
  show ?thesis
  proof (cases r)
    case (Inl e)
    then show ?thesis using bn by (simp add: cycle_def tick_tip_failed)
  next
    case (Inr T)
    show ?thesis
    proof (cases "w < currentHeight_of T")
      case False
      then show ?thesis using bn Inr by (simp add: cycle_def tick_stale)
    next
      case True
      have "fst (rpc_BlockNumber env (world io)) = Inr T" using bn Inr by simp
      from cycle_gap_fetches [OF this True] show ?thesis by blast
    qed
  qed
qed

lemma nil_free_scenario: "nil_free scenario_env"
  by (simp add: nil_free_def scenario_env_def)

section \<open>The tip conversion\<close>

lemma currentHeight_of_sint: "currentHeight_of T = sint T"
  by (simp add: currentHeight_of_def big_NewInt_def int64_of_def)

lemma uint64_bounds: "0 \<le> uint (T :: 64 word) \<and> uint T < 2 ^ 64"
  using uint_ge_0 [of T] uint_bounded [of T] by simp

lemma sint_eq_uint_iff: "(sint (T :: 64 word) = uint T) = (uint T < 2 ^ 63)"
proof -
  have "- (2 ^ 63) \<le> uint T"
    by (rule order_trans [OF _ uint_ge_0]) simp
  then show ?thesis
    by (simp add: sint_uint signed_take_bit_int_eq_self_iff)
qed

lemma sint_wraps: "\<not> uint (T :: 64 word) < 2 ^ 63 \<Longrightarrow> sint T = uint T - 2 ^ 64"
proof -
  assume big: "\<not> uint T < 2 ^ 63"
  let ?k = "uint T"
  have b: "2 ^ 63 \<le> ?k" "?k < 2 ^ 64" using big uint64_bounds [of T] by simp_all
  have "take_bit 64 (?k + 2 ^ 63) = (?k + 2 ^ 63) mod 2 ^ 64"
    by (simp add: take_bit_eq_mod)
  also have "\<dots> = ?k + 2 ^ 63 - 2 ^ 64"
    using b by (simp add: mod_pos_geq)
  finally have "signed_take_bit 63 ?k = ?k - 2 ^ 64"
    by (simp add: signed_take_bit_eq_take_bit_shift)
  then show ?thesis by (simp add: sint_uint)
qed

section \<open>The claims\<close>

text \<open>
  The events of a cycle are what it appends to the trace, and the heights it attempts
  are the \<^verbatim>\<open>HeaderByNumber\<close> calls among them, in order (\<open>fetches\<close>). The variant \<open>v\<close>
  ranges over \<^verbatim>\<open>main.go\<close> (with any push gateway address) and \<^verbatim>\<open>part_001\<close>. The node
  reports its tip as a \<^verbatim>\<open>uint64\<close> \<open>T\<close>; the height the synchronizer compares and stores
  is \<^verbatim>\<open>currentHeight\<close>, \<open>currentHeight_of T\<close>, which is \<open>T\<close> read as an \<^verbatim>\<open>int64\<close>.
\<close>

subsection \<open>The heights of a cycle\<close>

text \<open>
  A cycle whose tip, as the synchronizer holds it, is a height \<open>t\<close> above the watermark
  \<open>w\<close> starts with the tip query and then fetches exactly the heights \<open>w + 1, ..., t\<close>, each
  once and in increasing order. A cycle is cut short only by a panic on a header with
  a nil field; then it has fetched \<open>w + 1, ..., k\<close> for the height \<open>k\<close> of that header,
  so also there no height is skipped or fetched twice. Where no header has a nil field
  the cycle completes.
\<close>

theorem gap_completeness:
  assumes tip: "fst (rpc_BlockNumber env (world io)) = Inr T"
    and gap: "w < currentHeight_of T"
  shows "\<exists>evs. trace (snd (state_of (cycle env v w io))) = trace io @ BlockNumber_call # evs \<and>
     sorted_wrt (<) (fetches evs) \<and> distinct (fetches evs) \<and>
     (case cycle env v w io of
        Completed s \<Rightarrow> fetches evs = [w + 1..currentHeight_of T]
      | Panicked s \<Rightarrow> (\<exists>k. w < k \<and> k \<le> currentHeight_of T \<and> fetches evs = [w + 1..k])) \<and>
     (nil_free env \<longrightarrow> (\<exists>s. cycle env v w io = Completed s))"
proof -
  obtain evs where tr: "trace (snd (state_of (cycle env v w io))) = trace io @ BlockNumber_call # evs"
    and cs: "case cycle env v w io of
        Completed s \<Rightarrow> fst s = currentHeight_of T \<and> fetches evs = [w + 1..currentHeight_of T]
      | Panicked s \<Rightarrow> fst s = w \<and> (\<exists>k. w < k \<and> k \<le> currentHeight_of T \<and> fetches evs = [w + 1..k])"
    using cycle_gap_fetches [OF tip gap] by blast
  have "\<exists>k. fetches evs = [w + 1..k]"
    using cs by (cases "cycle env v w io") auto
  then have ord: "sorted_wrt (<) (fetches evs)" "distinct (fetches evs)"
    by auto
  have "case cycle env v w io of
        Completed s \<Rightarrow> fetches evs = [w + 1..currentHeight_of T]
      | Panicked s \<Rightarrow> (\<exists>k. w < k \<and> k \<le> currentHeight_of T \<and> fetches evs = [w + 1..k])"
    using cs by (cases "cycle env v w io") auto
  then show ?thesis
    using tr ord cycle_completes [of env v w io] by blast
qed

text \<open>The first scenario of the specification: watermark 100, tip 103.\<close>

theorem gap_completeness_witness:
  "fst (rpc_BlockNumber scenario_env (world io_init)) = Inr 103 \<and>
   100 < currentHeight_of 103 \<and>
   nil_free scenario_env \<and>
   (\<exists>s evs. cycle scenario_env (Main_go ''gw'') 100 io_init = Completed s \<and>
      trace (snd s) = trace io_init @ BlockNumber_call # evs \<and>
      fetches evs = [101, 102, 103])"
proof -
  have tip: "fst (rpc_BlockNumber scenario_env (world io_init)) = Inr 103"
    by (simp add: scenario_env_def)
  have gap: "100 < currentHeight_of 103"
    by (simp add: currentHeight_of_sint)
  have hs: "[100 + 1..currentHeight_of 103] = [101, 102, 103]"
    by (simp add: currentHeight_of_sint upto.simps)
  from gap_completeness [OF tip gap, of "Main_go ''gw''"] obtain evs s where
    "trace (snd (state_of (cycle scenario_env (Main_go ''gw'') 100 io_init)))
       = trace io_init @ BlockNumber_call # evs"
    "case cycle scenario_env (Main_go ''gw'') 100 io_init of
        Completed s \<Rightarrow> fetches evs = [100 + 1..currentHeight_of 103]
      | Panicked s \<Rightarrow> (\<exists>k. 100 < k \<and> k \<le> currentHeight_of 103 \<and> fetches evs = [100 + 1..k])"
    "cycle scenario_env (Main_go ''gw'') 100 io_init = Completed s"
    using nil_free_scenario by blast
  then have "cycle scenario_env (Main_go ''gw'') 100 io_init = Completed s \<and>
      trace (snd s) = trace io_init @ BlockNumber_call # evs \<and>
      fetches evs = [101, 102, 103]"
    using hs by simp
  then show ?thesis using tip gap nil_free_scenario by blast
qed

lemma big_tip_cycle:
  "cycle big_tip_env v 100 io_init = Completed (100, \<lparr>world = (), trace = [BlockNumber_call]\<rparr>)"
proof -
  have tip: "rpc_BlockNumber big_tip_env (world io_init) = (Inr (2 ^ 63), ())"
    by (simp add: big_tip_env_def)
  have "currentHeight_of (2 ^ 63) \<le> 100"
    by (simp add: currentHeight_of_sint)
  from tick_stale [OF tip this] show ?thesis
    by (simp add: cycle_def io_init_def)
qed

text \<open>
  C1, gap completeness, does not hold of every tip above the watermark. With the
  watermark 100 and a reported tip of \<open>2^63\<close> the cycle of \<^verbatim>\<open>main.go\<close> and of
  \<^verbatim>\<open>part_001\<close> fetches no height at all, where the claim has it attempt every height
  from 101 up: the cast \<^verbatim>\<open>int64(currentBlockNumber)\<close> of line 79 (\<^verbatim>\<open>part_001\<close> line 69)
  turns that tip negative. \<^verbatim>\<open>part_000\<close> converts its tip with \<^verbatim>\<open>SetUint64\<close> and keeps it.
\<close>

theorem gap_skipped_at_large_tip:
  "fst (rpc_BlockNumber big_tip_env (world io_init)) = Inr (2 ^ 63) \<and>
   100 < uint (2 ^ 63 :: uint64) \<and>
   fetches (trace (snd (state_of (cycle big_tip_env v 100 io_init)))) = []"
proof (intro conjI)
  show "fst (rpc_BlockNumber big_tip_env (world io_init)) = Inr (2 ^ 63)"
    by (simp add: big_tip_env_def)
  show "100 < uint (2 ^ 63 :: uint64)" by simp
  show "fetches (trace (snd (state_of (cycle big_tip_env v 100 io_init)))) = []"
    by (simp add: big_tip_cycle)
qed

subsection \<open>Cycles without a gap\<close>

text \<open>
  C4, a failed tip query skips the tick. When the tip query fails, the cycle completes
  with the watermark unchanged and exactly two events, the query and its log line: no
  header fetch, no insert, no gauge, no push. The polling loop goes on to the next
  tick from that state, and the next cycle starts with a tip query again.
\<close>

theorem tip_failure_skips_tick:
  fixes io :: "'w io"
  defines "skipped w1 \<equiv> io\<lparr>world := w1, trace := trace io @ [BlockNumber_call, Log FailedBlockNumber]\<rparr>"
  assumes "rpc_BlockNumber env (world io) = (Inl e, w1)"
  shows "cycle env v w io = Completed (w, skipped w1) \<and>
     poll_loop env (loop_body env v) (Suc n) w io =
       poll_loop env (loop_body env v) n w (skipped w1) \<and>
     (\<exists>evs. trace (snd (state_of (cycle env v w (skipped w1)))) =
        trace (skipped w1) @ BlockNumber_call # evs)"
proof -
  have c: "cycle env v w io = Completed (w, skipped w1)"
    unfolding cycle_def skipped_def using assms by (simp add: tick_tip_failed)
  then have "poll_loop env (loop_body env v) (Suc n) w io =
      poll_loop env (loop_body env v) n w (skipped w1)"
    by (simp add: cycle_def)
  then show ?thesis using c cycle_starts_with_tip_query [of env v w "skipped w1"] by blast
qed

text \<open>Watermark 102; the first tip query times out, the second returns 103.\<close>

theorem tip_failure_skips_tick_witness:
  "rpc_BlockNumber flaky_tip_env (world io_count) = (Inl ''timeout'', 1) \<and>
   cycle flaky_tip_env Part_001 102 io_count =
     Completed (102, \<lparr>world = 1, trace = [BlockNumber_call, Log FailedBlockNumber]\<rparr>) \<and>
   poll_loop flaky_tip_env (loop_body flaky_tip_env Part_001) (Suc 1) 102 io_count =
     (Running, 103, \<lparr>world = 2, trace =
        [BlockNumber_call, Log FailedBlockNumber,
         BlockNumber_call, HeaderByNumber_call 103, Exec_call 103 7, Log (Inserted 103 7)]\<rparr>)"
proof -
  let ?io1 = "\<lparr>world = 1, trace = [BlockNumber_call, Log FailedBlockNumber]\<rparr> :: nat io"
  have tip: "rpc_BlockNumber flaky_tip_env (world io_count) = (Inl ''timeout'', 1)"
    by (simp add: flaky_tip_env_def io_count_def)
  have io1: "io_count\<lparr>world := 1, trace := trace io_count @ [BlockNumber_call, Log FailedBlockNumber]\<rparr>
      = ?io1"
    by (simp add: io_count_def)
  have next_tick: "poll_loop flaky_tip_env (loop_body flaky_tip_env Part_001) 1 102 ?io1 =
     (Running, 103, \<lparr>world = 2, trace =
        [BlockNumber_call, Log FailedBlockNumber,
         BlockNumber_call, HeaderByNumber_call 103, Exec_call 103 7, Log (Inserted 103 7)]\<rparr>)"
    by (simp add: tick_def flaky_tip_env_def emit_def currentHeight_of_sint
        heights_loop.simps process_height_001_def)
  note skip = tip_failure_skips_tick [OF tip, of Part_001 102 1, unfolded io1]
  from skip have c: "cycle flaky_tip_env Part_001 102 io_count = Completed (102, ?io1)"
    by blast
  from skip have p: "poll_loop flaky_tip_env (loop_body flaky_tip_env Part_001) (Suc 1) 102 io_count =
      poll_loop flaky_tip_env (loop_body flaky_tip_env Part_001) 1 102 ?io1"
    by blast
  show ?thesis
    by (intro conjI) (rule tip, rule c, rule trans [OF p next_tick])
qed

text \<open>
  C5, no-op on a stale tip. When the observed tip is not above the watermark, the
  cycle completes with the watermark unchanged and the tip query as its only event.
\<close>

theorem stale_tip_noop:
  assumes "rpc_BlockNumber env (world io) = (Inr T, w1)"
    and "currentHeight_of T \<le> w"
  shows "cycle env v w io =
    Completed (w, io\<lparr>world := w1, trace := trace io @ [BlockNumber_call]\<rparr>)"
  unfolding cycle_def using assms by (rule tick_stale)

theorem stale_tip_noop_witness:
  "rpc_BlockNumber scenario_env (world io_init) = (Inr 103, ()) \<and>
   currentHeight_of 103 \<le> 103 \<and>
   cycle scenario_env (Main_go ''gw'') 103 io_init =
     Completed (103, \<lparr>world = (), trace = [BlockNumber_call]\<rparr>) \<and>
   cycle scenario_env Part_001 103 io_init =
     Completed (103, \<lparr>world = (), trace = [BlockNumber_call]\<rparr>)"
proof -
  have tip: "rpc_BlockNumber scenario_env (world io_init) = (Inr 103, ())"
    by (simp add: scenario_env_def)
  have stale: "currentHeight_of 103 \<le> 103"
    by (simp add: currentHeight_of_sint)
  show ?thesis
    using tip stale stale_tip_noop [OF tip stale, of "Main_go ''gw''"]
      stale_tip_noop [OF tip stale, of Part_001]
    by (simp add: io_init_def)
qed

subsection \<open>The signed cast\<close>

text \<open>
  C10, the tip passes through a signed 64-bit cast. The height the synchronizer holds
  for a reported tip \<open>T\<close> is \<open>T\<close> exactly when \<open>T < 2^63\<close>; otherwise it is negative and
  differs from \<open>T\<close>. The starting height taken from the tip is that same value, and so
  is the watermark a completed cycle stores.
\<close>

theorem tip_conversion_signed:
  "(currentHeight_of T = uint T \<longleftrightarrow> uint T < 2 ^ 63) \<and>
   (\<not> uint T < 2 ^ 63 \<longrightarrow> currentHeight_of T < 0 \<and> currentHeight_of T \<noteq> uint T) \<and>
   (sint start < 0 \<and> fst (rpc_BlockNumber env (world io)) = Inr T \<longrightarrow>
      fst (starting_height env start io) = Inr (currentHeight_of T)) \<and>
   (fst (rpc_BlockNumber env (world io)) = Inr T \<and> w < currentHeight_of T \<longrightarrow>
      (\<forall>s. cycle env v w io = Completed s \<longrightarrow> fst s = currentHeight_of T))"
proof (intro conjI impI allI)
  show "currentHeight_of T = uint T \<longleftrightarrow> uint T < 2 ^ 63"
    by (simp add: currentHeight_of_sint sint_eq_uint_iff)
next
  assume big: "\<not> uint T < 2 ^ 63"
  then have "currentHeight_of T = uint T - 2 ^ 64"
    by (simp add: currentHeight_of_sint sint_wraps)
  then show "currentHeight_of T < 0" using uint64_bounds [of T] by simp
  show "currentHeight_of T \<noteq> uint T"
    using big by (simp add: currentHeight_of_sint sint_eq_uint_iff)
next
  assume "sint start < 0 \<and> fst (rpc_BlockNumber env (world io)) = Inr T"
  then show "fst (starting_height env start io) = Inr (currentHeight_of T)"
    by (cases "rpc_BlockNumber env (world io)")
      (simp add: starting_height_def currentHeight_of_def Let_def)
next
  fix s
  assume a: "fst (rpc_BlockNumber env (world io)) = Inr T \<and> w < currentHeight_of T"
    and c: "cycle env v w io = Completed s"
  from a have "fst (rpc_BlockNumber env (world io)) = Inr T" "w < currentHeight_of T"
    by simp_all
  from cycle_gap_fetches [OF this, of v] show "fst s = currentHeight_of T"
    using c by auto
qed

theorem tip_conversion_signed_witness:
  "currentHeight_of 103 = uint (103 :: 64 word) \<and>
   uint (103 :: 64 word) < 2 ^ 63 \<and>
   \<not> uint (2 ^ 63 :: 64 word) < 2 ^ 63 \<and>
   currentHeight_of (2 ^ 63) < 0 \<and>
   currentHeight_of (2 ^ 63) \<noteq> uint (2 ^ 63 :: 64 word) \<and>
   sint start_default < 0 \<and>
   fst (rpc_BlockNumber scenario_env (world io_init)) = Inr 103 \<and>
   fst (starting_height scenario_env start_default io_init) = Inr (currentHeight_of 103)"
proof -
  have small: "uint (103 :: 64 word) < 2 ^ 63" by simp
  have big: "\<not> uint (2 ^ 63 :: 64 word) < 2 ^ 63" by simp
  have neg: "sint start_default < 0" by (simp add: start_default_def)
  have tip: "fst (rpc_BlockNumber scenario_env (world io_init)) = Inr 103"
    by (simp add: scenario_env_def)
  show ?thesis
    using small big neg tip
      tip_conversion_signed [of 103 start_default scenario_env io_init]
      tip_conversion_signed [of "2 ^ 63" start_default scenario_env io_init]
    by blast
qed

subsection \<open>The watermark\<close>

lemma cycle_mono: "w \<le> fst (state_of (cycle env v w io))"
proof -
  obtain r w1 where bn: "rpc_BlockNumber env (world io) = (r, w1)"
    by (cases "rpc_BlockNumber env (world io)")
  show ?thesis
  proof (cases r)
    case (Inl e)
    then show ?thesis using bn by (simp add: cycle_def tick_tip_failed)
  next
    case (Inr T)
    show ?thesis
    proof (cases "w < currentHeight_of T")
      case False
      then show ?thesis using bn Inr by (simp add: cycle_def tick_stale)
    next
      case True
      have "fst (rpc_BlockNumber env (world io)) = Inr T" using bn Inr by simp
      from cycle_gap_fetches [OF this True, of v] show ?thesis
        using True by (cases "cycle env v w io") auto
    qed
  qed
qed

lemma poll_loop_mono: "w \<le> fst (snd (poll_loop env (loop_body env v) n w io))"
proof (induction n arbitrary: w io)
  case 0
  then show ?case by simp
next
  case (Suc n)
  have m: "w \<le> fst (state_of (tick env (loop_body env v) w io))"
    using cycle_mono [of w env v io] by (simp add: cycle_def)
  show ?case
  proof (cases "tick env (loop_body env v) w io")
    case (Completed s)
    obtain l io' where s: "s = (l, io')" by (cases s)
    have "w \<le> l" using m Completed s by simp
    also have "l \<le> fst (snd (poll_loop env (loop_body env v) n l io'))" by (rule Suc.IH)
    finally show ?thesis using Completed s by simp
  next
    case (Panicked s)
    obtain l io' where s: "s = (l, io')" by (cases s)
    then show ?thesis using m Panicked by simp
  qed
qed

lemma cycle_gap_completes:
  assumes tip: "fst (rpc_BlockNumber env (world io)) = Inr T"
    and gap: "w < currentHeight_of T" and nf: "nil_free env"
  shows "\<exists>io' evs. cycle env v w io = Completed (currentHeight_of T, io') \<and>
     trace io' = trace io @ BlockNumber_call # evs \<and> fetches evs = [w + 1..currentHeight_of T]"
proof -
  obtain s where s: "cycle env v w io = Completed s"
    using cycle_completes [OF nf] by blast
  obtain l io' where p: "s = (l, io')" by (cases s)
  from cycle_gap_fetches [OF tip gap, of v] show ?thesis
    using s p by auto
qed

text \<open>
  The watermark only moves forward. After a cycle, completed or not, the watermark
  is at least what it was. A completed cycle that observed a tip \<open>t\<close> above the
  watermark ends with the watermark \<open>t\<close>, whatever the fetches, the inserts and the
  pushes answered; and where no header has a nil field the cycle does complete, so
  also when every fetch or every insert fails. Over any number of ticks of the polling
  loop the watermark never falls below its starting value.
\<close>

theorem forward_only_watermark:
  "w \<le> fst (state_of (cycle env v w io)) \<and>
   (fst (rpc_BlockNumber env (world io)) = Inr T \<and> w < currentHeight_of T \<longrightarrow>
      (\<forall>s. cycle env v w io = Completed s \<longrightarrow> fst s = currentHeight_of T) \<and>
      (nil_free env \<longrightarrow> (\<exists>io'. cycle env v w io = Completed (currentHeight_of T, io')))) \<and>
   w \<le> fst (snd (poll_loop env (loop_body env v) n w io))"
proof (intro conjI impI allI)
  show "w \<le> fst (state_of (cycle env v w io))" by (rule cycle_mono)
  show "w \<le> fst (snd (poll_loop env (loop_body env v) n w io))" by (rule poll_loop_mono)
next
  fix s
  assume a: "fst (rpc_BlockNumber env (world io)) = Inr T \<and> w < currentHeight_of T"
    and c: "cycle env v w io = Completed s"
  from a have "fst (rpc_BlockNumber env (world io)) = Inr T" "w < currentHeight_of T"
    by simp_all
  from cycle_gap_fetches [OF this, of v] show "fst s = currentHeight_of T"
    using c by auto
next
  assume a: "fst (rpc_BlockNumber env (world io)) = Inr T \<and> w < currentHeight_of T"
    and nf: "nil_free env"
  from a have "fst (rpc_BlockNumber env (world io)) = Inr T" "w < currentHeight_of T"
    by simp_all
  from cycle_gap_completes [OF this nf, of v]
  show "\<exists>io'. cycle env v w io = Completed (currentHeight_of T, io')" by blast
qed

lemma nil_free_all_fail: "nil_free all_fail_env"
  by (simp add: nil_free_def all_fail_env_def)


text \<open>Watermark 100, tip 102, and every fetch fails.\<close>

theorem forward_only_watermark_witness:
  "fst (rpc_BlockNumber all_fail_env (world io_init)) = Inr 102 \<and>
   100 < currentHeight_of 102 \<and>
   nil_free all_fail_env \<and>
   (\<exists>io'. cycle all_fail_env (Main_go ''gw'') 100 io_init = Completed (102, io')) \<and>
   (100 :: int) \<le> fst (snd (poll_loop all_fail_env (loop_body all_fail_env (Main_go ''gw'')) 3 100 io_init))"
proof -
  have tip: "fst (rpc_BlockNumber all_fail_env (world io_init)) = Inr 102"
    by (simp add: all_fail_env_def)
  have gap: "100 < currentHeight_of 102"
    by (simp add: currentHeight_of_sint)
  have t: "currentHeight_of 102 = 102"
    by (simp add: currentHeight_of_sint)
  note fw = forward_only_watermark [of 100 all_fail_env "Main_go ''gw''" io_init 102 3]
  from fw tip gap nil_free_all_fail
  have "\<exists>io'. cycle all_fail_env (Main_go ''gw'') 100 io_init = Completed (currentHeight_of 102, io')"
    by blast
  then have c: "\<exists>io'. cycle all_fail_env (Main_go ''gw'') 100 io_init = Completed (102, io')"
    by (simp only: t)
  from fw have "100 \<le> fst (snd (poll_loop all_fail_env (loop_body all_fail_env (Main_go ''gw'')) 3 100 io_init))"
    by blast
  then show ?thesis using tip gap nil_free_all_fail c by blast
qed

text \<open>
  C2, the forward-only watermark: the watermark never decreases, as the property above
  shows, but it does not reach every tip above it. With the watermark 100 and a
  reported tip of \<open>2^63\<close> the cycle of \<^verbatim>\<open>main.go\<close> and of \<^verbatim>\<open>part_001\<close> completes and
  leaves the watermark at 100, where the claim has it equal the tip: the same cast as
  in C1 turns the tip negative, and \<^verbatim>\<open>part_000\<close> with \<^verbatim>\<open>SetUint64\<close> keeps it.
\<close>

theorem watermark_stuck_at_large_tip:
  "fst (rpc_BlockNumber big_tip_env (world io_init)) = Inr (2 ^ 63) \<and>
   100 < uint (2 ^ 63 :: uint64) \<and>
   (\<exists>io'. cycle big_tip_env v 100 io_init = Completed (100, io')) \<and>
   (100 :: int) \<noteq> uint (2 ^ 63 :: uint64)"
proof (intro conjI)
  show "fst (rpc_BlockNumber big_tip_env (world io_init)) = Inr (2 ^ 63)"
    by (simp add: big_tip_env_def)
  show "100 < uint (2 ^ 63 :: uint64)" by simp
  show "\<exists>io'. cycle big_tip_env v 100 io_init = Completed (100, io')"
    by (simp add: big_tip_cycle)
  show "(100 :: int) \<noteq> uint (2 ^ 63 :: uint64)" by simp
qed

subsection \<open>A failing height\<close>

lemma failed_height_events:
  assumes "fetch_fails env h io \<or> insert_fails env h io"
  shows "\<exists>io1 evs. loop_body env v h io = Completed io1 \<and> trace io1 = trace io @ evs \<and>
     fetches evs = [h] \<and> inserted evs = [] \<and> filter is_metric evs = []"
proof -
  obtain r w1 where r: "rpc_HeaderByNumber env h (world io) = (r, w1)"
    by (cases "rpc_HeaderByNumber env h (world io)")
  show ?thesis
  proof (cases v)
    case (Main_go pg)
    then show ?thesis using assms r
      by (auto simp: fetch_fails_def insert_fails_def process_height_def trace_emit world_emit
          Let_def split: prod.splits sum.splits option.splits)
  next
    case Part_001
    then show ?thesis using assms r
      by (auto simp: fetch_fails_def insert_fails_def process_height_001_def trace_emit world_emit
          Let_def split: prod.splits sum.splits option.splits)
  qed
qed

text \<open>
  C3, per-height isolation. Let the inner loop stand at a height \<open>h \<le> t\<close> in any state,
  and let the fetch of \<open>h\<close> fail there, or its insert. Then the iteration completes: it
  fetched \<open>h\<close>, reported no insert, set no gauge and pushed nothing; the loop goes on
  from \<open>h + 1\<close>, and what follows fetches \<open>h + 1, ..., t\<close> (up to the height of a header
  with a nil field, should one come). And in a world whose headers have no nil field,
  so that failed fetches, inserts and pushes are all that can go wrong, every cycle
  with a tip \<open>t\<close> above the watermark \<open>w\<close> completes, has fetched \<open>w + 1, ..., t\<close> and
  ends with the watermark \<open>t\<close>.
\<close>

theorem per_height_isolation:
  assumes gap: "h \<le> t"
    and fails: "fetch_fails env h io \<or> insert_fails env h io"
  shows "(\<exists>io1 evs. loop_body env v h io = Completed io1 \<and> trace io1 = trace io @ evs \<and>
        fetches evs = [h] \<and> inserted evs = [] \<and> filter is_metric evs = [] \<and>
        heights_loop (loop_body env v) h t io = heights_loop (loop_body env v) (h + 1) t io1 \<and>
        (\<exists>later. trace (state_of (heights_loop (loop_body env v) (h + 1) t io1)) = trace io1 @ later \<and>
           (case heights_loop (loop_body env v) (h + 1) t io1 of
              Completed s \<Rightarrow> fetches later = [h + 1..t]
            | Panicked s \<Rightarrow> (\<exists>k. h < k \<and> k \<le> t \<and> fetches later = [h + 1..k])))) \<and>
     (nil_free env \<and> fst (rpc_BlockNumber env (world io0)) = Inr T \<and> w < currentHeight_of T \<longrightarrow>
        (\<exists>io' evs. cycle env v w io0 = Completed (currentHeight_of T, io') \<and>
           trace io' = trace io0 @ BlockNumber_call # evs \<and>
           fetches evs = [w + 1..currentHeight_of T]))"
proof (intro conjI impI)
  obtain io1 evs where b: "loop_body env v h io = Completed io1" "trace io1 = trace io @ evs"
    "fetches evs = [h]" "inserted evs = []" "filter is_metric evs = []"
    using failed_height_events [OF fails] by blast
  have step: "heights_loop (loop_body env v) h t io = heights_loop (loop_body env v) (h + 1) t io1"
    using gap b(1) by (simp add: heights_loop.simps)
  obtain later where l: "trace (state_of (heights_loop (loop_body env v) (h + 1) t io1)) = trace io1 @ later"
    "(case heights_loop (loop_body env v) (h + 1) t io1 of
        Completed s \<Rightarrow> fetches later = [h + 1..t]
      | Panicked s \<Rightarrow> (\<exists>k. h + 1 \<le> k \<and> k \<le> t \<and> fetches later = [h + 1..k]))"
    using loop_fetches [of "loop_body env v" "h + 1" t io1] loop_body_events [of env v] by blast
  have "(case heights_loop (loop_body env v) (h + 1) t io1 of
        Completed s \<Rightarrow> fetches later = [h + 1..t]
      | Panicked s \<Rightarrow> (\<exists>k. h < k \<and> k \<le> t \<and> fetches later = [h + 1..k]))"
  proof (cases "heights_loop (loop_body env v) (h + 1) t io1")
    case (Completed s)
    then show ?thesis using l by simp
  next
    case (Panicked s)
    then obtain k where "h + 1 \<le> k" "k \<le> t" "fetches later = [h + 1..k]" using l by auto
    then have "\<exists>k. h < k \<and> k \<le> t \<and> fetches later = [h + 1..k]"
      by (intro exI [of _ k]) simp
    then show ?thesis using Panicked by simp
  qed
  then show "\<exists>io1 evs. loop_body env v h io = Completed io1 \<and> trace io1 = trace io @ evs \<and>
        fetches evs = [h] \<and> inserted evs = [] \<and> filter is_metric evs = [] \<and>
        heights_loop (loop_body env v) h t io = heights_loop (loop_body env v) (h + 1) t io1 \<and>
        (\<exists>later. trace (state_of (heights_loop (loop_body env v) (h + 1) t io1)) = trace io1 @ later \<and>
           (case heights_loop (loop_body env v) (h + 1) t io1 of
              Completed s \<Rightarrow> fetches later = [h + 1..t]
            | Panicked s \<Rightarrow> (\<exists>k. h < k \<and> k \<le> t \<and> fetches later = [h + 1..k])))"
    using b step l(1) by blast
next
  assume a: "nil_free env \<and> fst (rpc_BlockNumber env (world io0)) = Inr T \<and> w < currentHeight_of T"
  then have "fst (rpc_BlockNumber env (world io0)) = Inr T" "w < currentHeight_of T" "nil_free env"
    by simp_all
  from cycle_gap_completes [OF this, of v]
  show "\<exists>io' evs. cycle env v w io0 = Completed (currentHeight_of T, io') \<and>
           trace io' = trace io0 @ BlockNumber_call # evs \<and>
           fetches evs = [w + 1..currentHeight_of T]" .
qed

lemma nil_free_fetch_fail: "nil_free fetch_fail_env"
  by (simp add: nil_free_def fetch_fail_env_def)


text \<open>
  The second scenario of the specification: watermark 100, tip 102, the fetch of 101
  fails and the header of 102 carries the difficulty 9.
\<close>

theorem per_height_isolation_witness:
  "(101 :: int) \<le> 102 \<and>
   fetch_fails fetch_fail_env 101 \<lparr>world = (), trace = [BlockNumber_call]\<rparr> \<and>
   nil_free fetch_fail_env \<and>
   fst (rpc_BlockNumber fetch_fail_env (world io_init)) = Inr 102 \<and>
   100 < currentHeight_of 102 \<and>
   (\<exists>io1. loop_body fetch_fail_env (Main_go ''gw'') 101 \<lparr>world = (), trace = [BlockNumber_call]\<rparr>
        = Completed io1 \<and>
      heights_loop (loop_body fetch_fail_env (Main_go ''gw'')) 101 102
          \<lparr>world = (), trace = [BlockNumber_call]\<rparr>
        = heights_loop (loop_body fetch_fail_env (Main_go ''gw'')) (101 + 1) 102 io1) \<and>
   (\<exists>io' evs. cycle fetch_fail_env (Main_go ''gw'') 100 io_init = Completed (currentHeight_of 102, io') \<and>
      trace io' = trace io_init @ BlockNumber_call # evs \<and>
      fetches evs = [100 + 1..currentHeight_of 102]) \<and>
   cycle fetch_fail_env (Main_go ''gw'') 100 io_init =
     Completed (102, \<lparr>world = (), trace =
       [BlockNumber_call, HeaderByNumber_call 101, Log (FailedHeader 101),
        HeaderByNumber_call 102, Exec_call 102 9, Log (Inserted 102 9),
        Gauge_Set 9, Push_call ''gw'', Log (Pushed 9)]\<rparr>)"
proof -
  let ?io = "\<lparr>world = (), trace = [BlockNumber_call]\<rparr> :: unit io"
  have gap: "(101 :: int) \<le> 102" by simp
  have ff: "fetch_fails fetch_fail_env 101 ?io"
    by (simp add: fetch_fails_def fetch_fail_env_def)
  then have fails: "fetch_fails fetch_fail_env 101 ?io \<or> insert_fails fetch_fail_env 101 ?io" ..
  have tip: "fst (rpc_BlockNumber fetch_fail_env (world io_init)) = Inr 102"
    by (simp add: fetch_fail_env_def)
  have above: "100 < currentHeight_of 102"
    by (simp add: currentHeight_of_sint)
  have run: "cycle fetch_fail_env (Main_go ''gw'') 100 io_init =
     Completed (102, \<lparr>world = (), trace =
       [BlockNumber_call, HeaderByNumber_call 101, Log (FailedHeader 101),
        HeaderByNumber_call 102, Exec_call 102 9, Log (Inserted 102 9),
        Gauge_Set 9, Push_call ''gw'', Log (Pushed 9)]\<rparr>)"
    by (simp add: cycle_def tick_def fetch_fail_env_def io_init_def emit_def currentHeight_of_sint
        heights_loop.simps process_height_def export_metric_def float64_of_small)
  note iso = per_height_isolation [OF gap fails, of "Main_go ''gw''" io_init 102 100]
  from iso have a: "\<exists>io1. loop_body fetch_fail_env (Main_go ''gw'') 101 ?io = Completed io1 \<and>
      heights_loop (loop_body fetch_fail_env (Main_go ''gw'')) 101 102 ?io
        = heights_loop (loop_body fetch_fail_env (Main_go ''gw'')) (101 + 1) 102 io1"
    by blast
  from iso nil_free_fetch_fail tip above
  have b: "\<exists>io' evs. cycle fetch_fail_env (Main_go ''gw'') 100 io_init = Completed (currentHeight_of 102, io') \<and>
      trace io' = trace io_init @ BlockNumber_call # evs \<and>
      fetches evs = [100 + 1..currentHeight_of 102]"
    by blast
  show ?thesis
    using gap ff nil_free_fetch_fail tip above a b run by blast
qed

subsection \<open>Metrics\<close>

text \<open>A property of event lists that appending keeps holds of what a loop and a cycle emit.\<close>

lemma loop_events:
  assumes nil: "P []" and app: "\<And>xs ys. P xs \<Longrightarrow> P ys \<Longrightarrow> P (xs @ ys)"
    and body: "\<And>h io. \<exists>evs. trace (state_of (body h io)) = trace io @ evs \<and> P evs"
  shows "\<exists>evs. trace (state_of (heights_loop body h t io)) = trace io @ evs \<and> P evs"
  using body
proof (induction body h t io rule: heights_loop.induct)
  case (1 body h t io)
  show ?case
  proof (cases "h \<le> t")
    case False
    then show ?thesis using nil by (simp add: heights_loop.simps)
  next
    case True
    obtain e1 where e1: "trace (state_of (body h io)) = trace io @ e1" "P e1"
      using "1.prems" by blast
    show ?thesis
    proof (cases "body h io")
      case (Panicked io')
      then have "heights_loop body h t io = Panicked io'"
        using True by (simp add: heights_loop.simps)
      then show ?thesis using e1 Panicked by auto
    next
      case (Completed io')
      then have eq: "heights_loop body h t io = heights_loop body (h + 1) t io'"
        using True by (simp add: heights_loop.simps)
      from "1.IH" [OF True Completed "1.prems"] obtain e2 where
        e2: "trace (state_of (heights_loop body (h + 1) t io')) = trace io' @ e2" "P e2"
        by blast
      have "trace (state_of (heights_loop body h t io)) = trace io @ (e1 @ e2)"
        using eq e1 e2 Completed by simp
      moreover have "P (e1 @ e2)" using e1 e2 by (intro app)
      ultimately show ?thesis by blast
    qed
  qed
qed

lemma tick_events:
  assumes nil: "P []" and app: "\<And>xs ys. P xs \<Longrightarrow> P ys \<Longrightarrow> P (xs @ ys)"
    and body: "\<And>h io. \<exists>evs. trace (state_of (body h io)) = trace io @ evs \<and> P evs"
    and query: "P [BlockNumber_call]" and failed: "P [Log FailedBlockNumber]"
  shows "\<exists>evs. trace (snd (state_of (tick env body w io))) = trace io @ evs \<and> P evs"
proof -
  obtain r w1 where bn: "rpc_BlockNumber env (world io) = (r, w1)"
    by (cases "rpc_BlockNumber env (world io)")
  show ?thesis
  proof (cases r)
    case (Inl e)
    have "P ([BlockNumber_call] @ [Log FailedBlockNumber])"
      using query failed by (intro app)
    then show ?thesis using bn Inl by (simp add: tick_tip_failed)
  next
    case (Inr T)
    show ?thesis
    proof (cases "w < currentHeight_of T")
      case False
      then show ?thesis using bn Inr query by (simp add: tick_stale)
    next
      case True
      let ?io1 = "io\<lparr>world := w1, trace := trace io @ [BlockNumber_call]\<rparr>"
      let ?L = "heights_loop body (w + 1) (currentHeight_of T) ?io1"
      obtain evs where evs: "trace (state_of ?L) = trace ?io1 @ evs" "P evs"
        using loop_events [of P body, OF nil app body] by blast
      have "P ([BlockNumber_call] @ evs)" using query evs by (intro app)
      moreover have "trace (snd (state_of (tick env body w io))) = trace io @ ([BlockNumber_call] @ evs)"
        using bn Inr True evs by (cases ?L) (simp_all add: tick_gap)
      ultimately show ?thesis by blast
    qed
  qed
qed

lemma process_height_metrics:
  "\<exists>evs. trace (state_of (process_height env pg h io)) = trace io @ evs \<and>
     filter is_metric evs = concat (map (\<lambda>d. [Gauge_Set (float64_of d), Push_call pg]) (inserted evs))"
  by (auto simp: process_height_def export_metric_def trace_emit world_emit Let_def
      split: prod.splits sum.splits option.splits)

lemma process_height_001_metrics:
  "\<exists>evs. trace (state_of (process_height_001 env h io)) = trace io @ evs \<and>
     filter is_metric evs = []"
  by (auto simp: process_height_001_def trace_emit world_emit Let_def
      split: prod.splits sum.splits option.splits)

lemma process_height_exported:
  assumes "rpc_HeaderByNumber env h (world io) = (Inr hdr, w1)"
    and "Uint64 (difficulty hdr) = Some d" and "Uint64 (number hdr) = Some n"
    and "db_Exec env n d w1 = (None, w2)"
    and "push_Push env pushGateway (float64_of d) w2 = (pe, w3)"
  shows "process_height env pushGateway h io =
    Completed (io\<lparr>world := w3, trace := trace io @
      [HeaderByNumber_call h, Exec_call n d, Log (Inserted n d),
       Gauge_Set (float64_of d), Push_call pushGateway,
       Log (case pe of None \<Rightarrow> Pushed d | Some err \<Rightarrow> FailedPush)]\<rparr>)"
  using assms
  by (cases pe) (simp_all add: process_height_def export_metric_def emit_def Let_def)

text \<open>
  What \<^verbatim>\<open>main.go\<close> exports. In a cycle the gauge is set and a push to the configured
  address, empty or not, is attempted once for every insert that succeeded, in that
  order, and at no other time; the gauge holds \<^verbatim>\<open>float64(difficulty)\<close>. At a height
  whose fetch and insert succeed the iteration is exactly: fetch, insert, its log line,
  gauge, push, and one log line that says whether the push failed; a failed push
  changes nothing else. \<^verbatim>\<open>part_001\<close> never sets a gauge and never pushes. \<^verbatim>\<open>part_000\<close>
  refuses to start without an address.
\<close>

theorem metrics_follow_inserts:
  "(\<exists>evs. trace (snd (state_of (cycle env (Main_go pushGateway) w io))) = trace io @ evs \<and>
      filter is_metric evs =
        concat (map (\<lambda>d. [Gauge_Set (float64_of d), Push_call pushGateway]) (inserted evs))) \<and>
   (\<exists>evs. trace (snd (state_of (cycle env Part_001 w io))) = trace io @ evs \<and>
      filter is_metric evs = []) \<and>
   (rpc_HeaderByNumber env h (world io) = (Inr hdr, w1) \<and>
    Uint64 (difficulty hdr) = Some d \<and> Uint64 (number hdr) = Some n \<and>
    db_Exec env n d w1 = (None, w2) \<and>
    push_Push env pushGateway (float64_of d) w2 = (pe, w3) \<longrightarrow>
      process_height env pushGateway h io =
        Completed (io\<lparr>world := w3, trace := trace io @
          [HeaderByNumber_call h, Exec_call n d, Log (Inserted n d),
           Gauge_Set (float64_of d), Push_call pushGateway,
           Log (case pe of None \<Rightarrow> Pushed d | Some err \<Rightarrow> FailedPush)]\<rparr>)) \<and>
   required_options_000 rpc [] = Inl (Exited 1)"
proof (intro conjI impI)
  let ?P = "\<lambda>evs. filter is_metric evs =
        concat (map (\<lambda>d. [Gauge_Set (float64_of d), Push_call pushGateway]) (inserted evs))"
  have "\<exists>evs. trace (snd (state_of (tick env (process_height env pushGateway) w io))) = trace io @ evs \<and> ?P evs"
    by (rule tick_events [of ?P]) (simp_all add: inserted_append process_height_metrics)
  then show "\<exists>evs. trace (snd (state_of (cycle env (Main_go pushGateway) w io))) = trace io @ evs \<and> ?P evs"
    by (simp add: cycle_def)
next
  let ?Q = "\<lambda>evs. filter is_metric evs = []"
  have "\<exists>evs. trace (snd (state_of (tick env (process_height_001 env) w io))) = trace io @ evs \<and> ?Q evs"
    by (rule tick_events [of ?Q]) (simp_all add: process_height_001_metrics)
  then show "\<exists>evs. trace (snd (state_of (cycle env Part_001 w io))) = trace io @ evs \<and> ?Q evs"
    by (simp add: cycle_def)
next
  assume "rpc_HeaderByNumber env h (world io) = (Inr hdr, w1) \<and>
    Uint64 (difficulty hdr) = Some d \<and> Uint64 (number hdr) = Some n \<and>
    db_Exec env n d w1 = (None, w2) \<and>
    push_Push env pushGateway (float64_of d) w2 = (pe, w3)"
  then have "rpc_HeaderByNumber env h (world io) = (Inr hdr, w1)"
    "Uint64 (difficulty hdr) = Some d" "Uint64 (number hdr) = Some n"
    "db_Exec env n d w1 = (None, w2)"
    "push_Push env pushGateway (float64_of d) w2 = (pe, w3)"
    by simp_all
  then show "process_height env pushGateway h io =
        Completed (io\<lparr>world := w3, trace := trace io @
          [HeaderByNumber_call h, Exec_call n d, Log (Inserted n d),
           Gauge_Set (float64_of d), Push_call pushGateway,
           Log (case pe of None \<Rightarrow> Pushed d | Some err \<Rightarrow> FailedPush)]\<rparr>)"
    by (rule process_height_exported)
next
  show "required_options_000 rpc [] = Inl (Exited 1)"
    by (simp add: required_options_000_def)
qed

text \<open>Height 101 of the first scenario, with no address and a gateway that refuses.\<close>

theorem metrics_follow_inserts_witness:
  "rpc_HeaderByNumber push_fail_env 101 (world io_init) =
     (Inr \<lparr>difficulty = Some 5, number = Some 101\<rparr>, ()) \<and>
   Uint64 (difficulty \<lparr>difficulty = Some 5, number = Some 101\<rparr>) = Some 5 \<and>
   Uint64 (number \<lparr>difficulty = Some 5, number = Some 101\<rparr>) = Some 101 \<and>
   db_Exec push_fail_env 101 5 () = (None, ()) \<and>
   push_Push push_fail_env [] (float64_of 5) () = (Some ''refused'', ()) \<and>
   process_height push_fail_env [] 101 io_init =
     Completed \<lparr>world = (), trace =
       [HeaderByNumber_call 101, Exec_call 101 5, Log (Inserted 101 5),
        Gauge_Set 5, Push_call [], Log FailedPush]\<rparr> \<and>
   (\<exists>evs. trace (snd (state_of (cycle push_fail_env (Main_go []) 100 io_init))) = trace io_init @ evs \<and>
      filter is_metric evs = concat (map (\<lambda>d. [Gauge_Set (float64_of d), Push_call []]) (inserted evs)))"
proof -
  let ?hdr = "\<lparr>difficulty = Some 5, number = Some 101\<rparr>"
  have a: "rpc_HeaderByNumber push_fail_env 101 (world io_init) = (Inr ?hdr, ())"
    by (simp add: push_fail_env_def scenario_env_def)
  have b: "Uint64 (difficulty ?hdr) = Some 5" by simp
  have c: "Uint64 (number ?hdr) = Some 101" by simp
  have d: "db_Exec push_fail_env 101 5 () = (None, ())"
    by (simp add: push_fail_env_def scenario_env_def)
  have e: "push_Push push_fail_env [] (float64_of 5) () = (Some ''refused'', ())"
    by (simp add: push_fail_env_def scenario_env_def)
  have f: "float64_of 5 = 5" by (simp add: float64_of_small)
  note m = metrics_follow_inserts [where env = push_fail_env and pushGateway = "[]" and w = 100
      and io = io_init and h = 101 and hdr = ?hdr and d = 5 and n = 101 and pe = "Some ''refused''"
      and ?w1.0 = "()" and ?w2.0 = "()" and ?w3.0 = "()"]
  from m a b c d e have 1: "process_height push_fail_env [] 101 io_init =
     Completed \<lparr>world = (), trace =
       [HeaderByNumber_call 101, Exec_call 101 5, Log (Inserted 101 5),
        Gauge_Set 5, Push_call [], Log FailedPush]\<rparr>"
    by (simp add: f io_init_def)
  from m have 2: "\<exists>evs. trace (snd (state_of (cycle push_fail_env (Main_go []) 100 io_init))) = trace io_init @ evs \<and>
      filter is_metric evs = concat (map (\<lambda>d. [Gauge_Set (float64_of d), Push_call []]) (inserted evs))"
    by blast
  show ?thesis using a b c d e 1 2 by blast
qed

lemma scenario_without_address:
  "cycle scenario_env (Main_go []) 100 io_init =
     Completed (103, \<lparr>world = (), trace =
       [BlockNumber_call,
        HeaderByNumber_call 101, Exec_call 101 5, Log (Inserted 101 5),
        Gauge_Set 5, Push_call [], Log (Pushed 5),
        HeaderByNumber_call 102, Exec_call 102 6, Log (Inserted 102 6),
        Gauge_Set 6, Push_call [], Log (Pushed 6),
        HeaderByNumber_call 103, Exec_call 103 7, Log (Inserted 103 7),
        Gauge_Set 7, Push_call [], Log (Pushed 7)]\<rparr>)"
  by (simp add: cycle_def tick_def scenario_env_def io_init_def emit_def currentHeight_of_sint
      heights_loop.simps process_height_def export_metric_def float64_of_small)

text \<open>
  C8, metrics only with an address, does not hold of \<^verbatim>\<open>main.go\<close>. Started without
  a push gateway address (the flag's default, the empty string) and run on the first
  scenario, it sets the gauge three times and pushes three times, to the empty
  address: lines 101 to 113 have no guard, and the required options of lines 27 to 29
  leave the address out. \<^verbatim>\<open>part_000\<close> guards it: lines 43 to 45 refuse to start
  without an address.
\<close>

theorem metrics_without_address:
  "filter is_metric (trace (snd (state_of (cycle scenario_env (Main_go []) 100 io_init)))) =
     [Gauge_Set 5, Push_call [], Gauge_Set 6, Push_call [], Gauge_Set 7, Push_call []]"
proof -
  have "trace (snd (state_of (cycle scenario_env (Main_go []) 100 io_init))) =
       [BlockNumber_call,
        HeaderByNumber_call 101, Exec_call 101 5, Log (Inserted 101 5),
        Gauge_Set 5, Push_call [], Log (Pushed 5),
        HeaderByNumber_call 102, Exec_call 102 6, Log (Inserted 102 6),
        Gauge_Set 6, Push_call [], Log (Pushed 6),
        HeaderByNumber_call 103, Exec_call 103 7, Log (Inserted 103 7),
        Gauge_Set 7, Push_call [], Log (Pushed 7)]"
    by (simp add: scenario_without_address)
  then show ?thesis by simp
qed

subsection \<open>Start-up\<close>

text \<open>
  The initial watermark. A \<^verbatim>\<open>start\<close> option that is not negative is the initial
  watermark. A negative one, which includes the default \<open>- 1\<close> of an absent option,
  makes the program query the tip once: the initial watermark is the tip it then holds,
  so that a first cycle that sees no higher tip fetches nothing; and if that query
  fails the process ends on the fatal path, with status 1.
\<close>

theorem watermark_initialization:
  "(0 \<le> sint start \<longrightarrow> starting_height env start io = (Inr (sint start), io)) \<and>
   sint start_default < 0 \<and>
   (sint start < 0 \<and> rpc_BlockNumber env (world io) = (Inr T, w1) \<longrightarrow>
      starting_height env start io =
        (Inr (currentHeight_of T), io\<lparr>world := w1, trace := trace io @ [BlockNumber_call]\<rparr>) \<and>
      (\<forall>io' T' w2. rpc_BlockNumber env (world io') = (Inr T', w2) \<and>
           currentHeight_of T' \<le> currentHeight_of T \<longrightarrow>
         cycle env v (currentHeight_of T) io' =
           Completed (currentHeight_of T, io'\<lparr>world := w2, trace := trace io' @ [BlockNumber_call]\<rparr>))) \<and>
   (sint start < 0 \<and> rpc_BlockNumber env (world io) = (Inl e, w1) \<longrightarrow>
      starting_height env start io =
        (Inl (Exited 1), io\<lparr>world := w1, trace := trace io @
           [BlockNumber_call, Log (FatalLine ''failed to get block number'')]\<rparr>))"
proof (intro conjI impI allI)
  assume "0 \<le> sint start"
  then show "starting_height env start io = (Inr (sint start), io)"
    by (simp add: starting_height_def big_NewInt_def)
next
  show "sint start_default < 0" by (simp add: start_default_def)
next
  assume "sint start < 0 \<and> rpc_BlockNumber env (world io) = (Inr T, w1)"
  then show "starting_height env start io =
        (Inr (currentHeight_of T), io\<lparr>world := w1, trace := trace io @ [BlockNumber_call]\<rparr>)"
    by (simp add: starting_height_def currentHeight_of_def emit_def)
next
  fix io' :: "'a io" and T' w2
  assume "rpc_BlockNumber env (world io') = (Inr T', w2) \<and> currentHeight_of T' \<le> currentHeight_of T"
  then show "cycle env v (currentHeight_of T) io' =
           Completed (currentHeight_of T, io'\<lparr>world := w2, trace := trace io' @ [BlockNumber_call]\<rparr>)"
    by (simp add: cycle_def tick_stale)
next
  assume "sint start < 0 \<and> rpc_BlockNumber env (world io) = (Inl e, w1)"
  then show "starting_height env start io =
        (Inl (Exited 1), io\<lparr>world := w1, trace := trace io @
           [BlockNumber_call, Log (FatalLine ''failed to get block number'')]\<rparr>)"
    by (simp add: starting_height_def emit_def)
qed

text \<open>
  Started at 100; started without the option at tip 103, and a first cycle at that tip;
  started without the option while the tip query times out.
\<close>

theorem watermark_initialization_witness:
  "0 \<le> sint (100 :: 64 word) \<and>
   starting_height scenario_env 100 io_init = (Inr 100, io_init) \<and>
   sint start_default < 0 \<and>
   rpc_BlockNumber scenario_env (world io_init) = (Inr 103, ()) \<and>
   starting_height scenario_env start_default io_init =
     (Inr 103, \<lparr>world = (), trace = [BlockNumber_call]\<rparr>) \<and>
   cycle scenario_env Part_001 103 \<lparr>world = (), trace = [BlockNumber_call]\<rparr> =
     Completed (103, \<lparr>world = (), trace = [BlockNumber_call, BlockNumber_call]\<rparr>) \<and>
   rpc_BlockNumber flaky_tip_env (world io_count) = (Inl ''timeout'', 1) \<and>
   starting_height flaky_tip_env start_default io_count =
     (Inl (Exited 1), \<lparr>world = 1, trace =
        [BlockNumber_call, Log (FatalLine ''failed to get block number'')]\<rparr>)"
proof -
  let ?io1 = "\<lparr>world = (), trace = [BlockNumber_call]\<rparr> :: unit io"
  have given: "0 \<le> sint (100 :: 64 word)" by simp
  have neg: "sint start_default < 0" by (simp add: start_default_def)
  have tip: "rpc_BlockNumber scenario_env (world io_init) = (Inr 103, ())"
    by (simp add: scenario_env_def)
  have tip': "rpc_BlockNumber scenario_env (world ?io1) = (Inr 103, ())"
    by (simp add: scenario_env_def)
  have bad: "rpc_BlockNumber flaky_tip_env (world io_count) = (Inl ''timeout'', 1)"
    by (simp add: flaky_tip_env_def io_count_def)
  have t: "currentHeight_of 103 = 103" by (simp add: currentHeight_of_sint)
  have s: "sint (100 :: 64 word) = 100" by simp
  note a = watermark_initialization [where start = 100 and env = scenario_env and io = io_init]
  note b = watermark_initialization [where start = start_default and env = scenario_env
      and io = io_init and T = 103 and ?w1.0 = "()" and v = Part_001]
  note c = watermark_initialization [where start = start_default and env = flaky_tip_env
      and io = io_count and e = "''timeout''" and ?w1.0 = 1]
  from a given have 1: "starting_height scenario_env 100 io_init = (Inr 100, io_init)"
    by (simp add: s)
  from b neg tip have 2: "starting_height scenario_env start_default io_init =
     (Inr 103, \<lparr>world = (), trace = [BlockNumber_call]\<rparr>)"
    by (simp add: t io_init_def)
  from b neg tip tip' have 3: "cycle scenario_env Part_001 103 ?io1 =
     Completed (103, \<lparr>world = (), trace = [BlockNumber_call, BlockNumber_call]\<rparr>)"
    by (simp add: t)
  from c neg bad have 4: "starting_height flaky_tip_env start_default io_count =
     (Inl (Exited 1), \<lparr>world = 1, trace =
        [BlockNumber_call, Log (FatalLine ''failed to get block number'')]\<rparr>)"
    by (simp add: io_count_def)
  show ?thesis using given neg tip bad 1 2 3 4 by blast
qed

text \<open>
  C9, the initial watermark: the configured start and the fatal path are as the claim
  says (the property above), but the watermark taken from the tip is not always the
  tip. Launched without the option while the node reports the tip \<open>2^64 - 1\<close>,
  \<^verbatim>\<open>part_001\<close> (and \<^verbatim>\<open>main.go\<close> alike) starts from the watermark \<open>- 1\<close>: the cast of
  line 52 (\<^verbatim>\<open>main.go\<close> line 56) wraps. When the next tick sees the tip 2, the cycle
  fetches and inserts the heights 0, 1 and 2, all below the tip at launch: it
  processes retroactively. \<^verbatim>\<open>part_000\<close> converts its tip with \<^verbatim>\<open>SetUint64\<close>.
\<close>

theorem start_at_wrapped_tip:
  "rpc_BlockNumber wrapped_start_env (world io_count) = (Inr (2 ^ 64 - 1), 1) \<and>
   uint (2 ^ 64 - 1 :: uint64) = 18446744073709551615 \<and>
   starting_height wrapped_start_env start_default io_count =
     (Inr (- 1), \<lparr>world = 1, trace = [BlockNumber_call]\<rparr>) \<and>
   cycle wrapped_start_env Part_001 (- 1) \<lparr>world = 1, trace = [BlockNumber_call]\<rparr> =
     Completed (2, \<lparr>world = 2, trace =
       [BlockNumber_call, BlockNumber_call,
        HeaderByNumber_call 0, Exec_call 0 7, Log (Inserted 0 7),
        HeaderByNumber_call 1, Exec_call 1 7, Log (Inserted 1 7),
        HeaderByNumber_call 2, Exec_call 2 7, Log (Inserted 2 7)]\<rparr>)"
  by (simp add: starting_height_def start_default_def wrapped_start_env_def io_count_def emit_def
      big_NewInt_def int64_of_def cycle_def tick_def currentHeight_of_sint
      heights_loop.simps process_height_001_def)

subsection \<open>A header without a difficulty\<close>

text \<open>
  C6, a header without a difficulty. \<^verbatim>\<open>main.go\<close> and \<^verbatim>\<open>part_001\<close> call \<^verbatim>\<open>Uint64()\<close>
  on the difficulty with no nil check: with watermark 100 and tip 102, a header of 101
  that has no difficulty ends the process in a panic right after the fetch of 101.
  Nothing is logged, 102 is never attempted and the watermark stays 100. Only
  \<^verbatim>\<open>part_000\<close> does what the claim says, as its own section shows below.
\<close>

theorem nil_difficulty_panics:
  "cycle nil_difficulty_env (Main_go ''gw'') 100 io_init =
     Panicked (100, \<lparr>world = (), trace = [BlockNumber_call, HeaderByNumber_call 101]\<rparr>) \<and>
   cycle nil_difficulty_env Part_001 100 io_init =
     Panicked (100, \<lparr>world = (), trace = [BlockNumber_call, HeaderByNumber_call 101]\<rparr>)"
  by (simp add: cycle_def tick_def nil_difficulty_env_def io_init_def emit_def currentHeight_of_sint
      heights_loop.simps process_height_def process_height_001_def)

subsection \<open>Shutdown\<close>

text \<open>
  C7, shutdown. The polling loop of \<^verbatim>\<open>main.go\<close> and \<^verbatim>\<open>part_001\<close> has no way out:
  after any number of ticks it is still running or has panicked, and never has the
  process exited with a status of its own, 0 or other. These two files install no
  signal handler, so a signal is not an event their loop can see. Only \<^verbatim>\<open>part_000\<close>
  does what the claim says, as its own section shows below.
\<close>

theorem poll_loop_never_exits:
  "fst (poll_loop env (loop_body env v) n w io) \<noteq> Exited c"
proof (induction n arbitrary: w io)
  case 0
  then show ?case by simp
next
  case (Suc n)
  show ?case
  proof (cases "tick env (loop_body env v) w io")
    case (Completed s)
    then show ?thesis using Suc.IH by (cases s) simp
  next
    case (Panicked s)
    then show ?thesis by (cases s) simp
  qed
qed

section \<open>part\_000\<close>

text \<open>
  A tick of \<^verbatim>\<open>part_000\<close> whose header has no difficulty logs that and ends: no gauge,
  no push, no panic.
\<close>

lemma monitor_tick_nil_difficulty:
  assumes "rpc_BlockNumber env (world io) = (Inr n, w1)"
    and "rpc_HeaderByNumber env (SetUint64 n) w1 = (Inr hdr, w2)"
    and "difficulty hdr = None"
  shows "monitor_tick env pushGateway io =
    io\<lparr>world := w2, trace := trace io @
      [BlockNumber_call, HeaderByNumber_call (SetUint64 n), Log (NilDifficulty n)]\<rparr>"
  using assms by (simp add: monitor_tick_def emit_def Let_def)

lemma monitor_tick_nil_difficulty_witness:
  "rpc_BlockNumber nil_tip_env (world io_init) = (Inr 101, ()) \<and>
   rpc_HeaderByNumber nil_tip_env (SetUint64 101) () = (Inr \<lparr>difficulty = None, number = Some 101\<rparr>, ()) \<and>
   monitor_tick nil_tip_env ''gw'' io_init =
     \<lparr>world = (), trace = [BlockNumber_call, HeaderByNumber_call 101, Log (NilDifficulty 101)]\<rparr>"
proof -
  have a: "rpc_BlockNumber nil_tip_env (world io_init) = (Inr 101, ())"
    by (simp add: nil_tip_env_def)
  have b: "rpc_HeaderByNumber nil_tip_env (SetUint64 101) () =
      (Inr \<lparr>difficulty = None, number = Some 101\<rparr>, ())"
    by (simp add: nil_tip_env_def nil_difficulty_env_def SetUint64_def)
  have c: "difficulty \<lparr>difficulty = None, number = Some 101\<rparr> = None" by simp
  show ?thesis
    using a b monitor_tick_nil_difficulty [OF a b c, of "''gw''"]
    by (simp add: io_init_def SetUint64_def)
qed

text \<open>
  The main loop of \<^verbatim>\<open>part_000\<close>: when the \<^verbatim>\<open>select\<close> takes the \<^verbatim>\<open>quit\<close> case after
  \<open>k\<close> ticks, each of these ticks has run to its end, one log line is written and the
  process exits with status 0, whatever would have come next. Until then it runs.
\<close>

lemma select_loop_quit:
  "select_loop env pushGateway (replicate k Case_ticker @ Case_quit # rest) io =
     (Exited 0, emit (Log ShutdownSignal) ((monitor_tick env pushGateway ^^ k) io))"
  by (induction k arbitrary: io) (simp_all add: funpow_swap1)

lemma select_loop_waits:
  "select_loop env pushGateway (replicate k Case_ticker) io =
     (Running, (monitor_tick env pushGateway ^^ k) io)"
  by (induction k arbitrary: io) (simp_all add: funpow_swap1)

end
